theory Spec2Isabelle
  imports Main "HOL-Library.Word"
begin

section \<open>Python values\<close>

text \<open>
  The payment code of the shop consists of the provider client
  (\<^verbatim>\<open>services/payment.py\<close>, class \<^verbatim>\<open>PayOSAPI\<close>) and the request handlers
  (\<^verbatim>\<open>routes/payment.py\<close>). Python strings are lists of characters, each \<open>char\<close> one
  code point below 256; Python integers are unbounded, hence \<open>int\<close>. Floating point
  numbers are not modelled.
\<close>

text \<open>The scalar values that reach \<^verbatim>\<open>create_payment\<close> as order id and amount.\<close>

datatype pyval = PNone | PBool bool | PInt int | PStr string

text \<open>A parsed JSON document: request bodies and provider responses.\<close>

datatype json =
    JNull
  | JBool bool
  | JNum int
  | JStr string
  | JArr "json list"
  | JObj "(string \<times> json) list"

text \<open>
  Exceptions carry the text of \<^verbatim>\<open>str(e)\<close>. \<open>LibraryError\<close> stands for whatever an
  external library raises (a connection failure or timeout of \<^verbatim>\<open>requests\<close>, a JSON
  decoding error); all of them derive from \<^verbatim>\<open>Exception\<close>.
\<close>

datatype py_exception =
    ValueError string
  | TypeError string
  | KeyError string
  | AttributeError string
  | LibraryError string

fun exc_str :: "py_exception \<Rightarrow> string" where
  "exc_str (ValueError m) = m"
| "exc_str (TypeError m) = m"
| "exc_str (KeyError m) = m"
| "exc_str (AttributeError m) = m"
| "exc_str (LibraryError m) = m"

text \<open>A text between single quotes, as exception messages show names.\<close>

definition quoted :: "string \<Rightarrow> string" where
  "quoted s = CHR 0x27 # s @ [CHR 0x27]"

text \<open>Truth value of a JSON value, as \<^verbatim>\<open>not x\<close> tests it.\<close>

fun truthy :: "json \<Rightarrow> bool" where
  "truthy JNull = False"
| "truthy (JBool b) = b"
| "truthy (JNum n) = (n \<noteq> 0)"
| "truthy (JStr s) = (s \<noteq> [])"
| "truthy (JArr xs) = (xs \<noteq> [])"
| "truthy (JObj kvs) = (kvs \<noteq> [])"

fun type_name :: "json \<Rightarrow> string" where
  "type_name JNull = ''NoneType''"
| "type_name (JBool b) = ''bool''"
| "type_name (JNum n) = ''int''"
| "type_name (JStr s) = ''str''"
| "type_name (JArr xs) = ''list''"
| "type_name (JObj kvs) = ''dict''"

text \<open>
  A dictionary is an association list in which the first binding of a key counts.
  \<open>dict_get d k\<close> is \<^verbatim>\<open>d.get(k)\<close>, \<open>dict_get_default d k v\<close> is \<^verbatim>\<open>d.get(k, v)\<close>.
\<close>

definition dict_get :: "(string \<times> json) list \<Rightarrow> string \<Rightarrow> json" where
  "dict_get d k = (case map_of d k of None \<Rightarrow> JNull | Some v \<Rightarrow> v)"

definition dict_get_default :: "(string \<times> json) list \<Rightarrow> string \<Rightarrow> json \<Rightarrow> json" where
  "dict_get_default d k dflt = (case map_of d k of None \<Rightarrow> dflt | Some v \<Rightarrow> v)"

text \<open>\<^verbatim>\<open>x.get(k)\<close> on a JSON value: only a dictionary has the method.\<close>

fun py_get :: "json \<Rightarrow> string \<Rightarrow> py_exception + json" where
  "py_get (JObj d) k = Inr (dict_get d k)"
| "py_get v k =
     Inl (AttributeError (quoted (type_name v) @ '' object has no attribute '' @ quoted ''get''))"

text \<open>\<^verbatim>\<open>x[k]\<close> with a string key.\<close>

fun py_getitem :: "json \<Rightarrow> string \<Rightarrow> py_exception + json" where
  "py_getitem (JObj d) k =
     (case map_of d k of
        None \<Rightarrow> Inl (KeyError (quoted k))
      | Some v \<Rightarrow> Inr v)"
| "py_getitem (JArr xs) k =
     Inl (TypeError ''list indices must be integers or slices, not str'')"
| "py_getitem (JStr s) k =
     Inl (TypeError (''string indices must be integers, not '' @ quoted ''str''))"
| "py_getitem v k =
     Inl (TypeError (quoted (type_name v) @ '' object is not subscriptable''))"

subsection \<open>Integers and their decimal text\<close>

definition is_digit :: "char \<Rightarrow> bool" where
  "is_digit c = (48 \<le> (of_char c :: nat) \<and> (of_char c :: nat) \<le> 57)"

definition digit_val :: "char \<Rightarrow> nat" where
  "digit_val c = of_char c - 48"

definition digit_char :: "nat \<Rightarrow> char" where
  "digit_char d = char_of (48 + d)"

text \<open>The characters \<^verbatim>\<open>int()\<close> skips at both ends of a string.\<close>

definition is_space :: "char \<Rightarrow> bool" where
  "is_space c =
     ((of_char c :: nat) \<in> {9, 10, 11, 12, 13, 28, 29, 30, 31, 32, 133, 160})"

definition strip :: "string \<Rightarrow> string" where
  "strip s = rev (dropWhile is_space (rev (dropWhile is_space s)))"

text \<open>
  The digits after the first one: a single underscore may stand between two digits.
\<close>

fun parse_digits :: "nat \<Rightarrow> string \<Rightarrow> nat option" where
  "parse_digits acc [] = Some acc"
| "parse_digits acc [c] =
     (if is_digit c then Some (10 * acc + digit_val c) else None)"
| "parse_digits acc (c # d # ds) =
     (if is_digit c then parse_digits (10 * acc + digit_val c) (d # ds)
      else if c = CHR ''_'' \<and> is_digit d then parse_digits (10 * acc + digit_val d) ds
      else None)"

definition parse_unsigned :: "string \<Rightarrow> nat option" where
  "parse_unsigned s =
     (case s of
        [] \<Rightarrow> None
      | c # cs \<Rightarrow> if is_digit c then parse_digits (digit_val c) cs else None)"

text \<open>
  \<^verbatim>\<open>int(s)\<close> for a string, base 10: surrounding white space, an optional sign, digits.
  \<open>None\<close> is the \<^verbatim>\<open>ValueError\<close>. The interpreter's bound on the number of digits is not
  modelled.
\<close>

definition int_of_str :: "string \<Rightarrow> int option" where
  "int_of_str s =
     (case strip s of
        [] \<Rightarrow> None
      | c # cs \<Rightarrow>
          if c = CHR ''-'' then map_option (\<lambda>n. - int n) (parse_unsigned cs)
          else if c = CHR ''+'' then map_option int (parse_unsigned cs)
          else map_option int (parse_unsigned (c # cs)))"

function str_nat :: "nat \<Rightarrow> string" where
  "str_nat n = (if n < 10 then [digit_char n] else str_nat (n div 10) @ [digit_char (n mod 10)])"
  by pat_completeness auto
termination
  by (relation "measure id") auto

declare str_nat.simps [simp del]

text \<open>\<^verbatim>\<open>str(n)\<close> for an integer, which is also how an f-string renders it.\<close>

definition str_int :: "int \<Rightarrow> string" where
  "str_int i = (if i < 0 then CHR ''-'' # str_nat (nat (- i)) else str_nat (nat i))"

text \<open>\<^verbatim>\<open>int(v)\<close>.\<close>

fun py_int :: "pyval \<Rightarrow> py_exception + int" where
  "py_int PNone =
     Inl (TypeError
       (''int() argument must be a string, a bytes-like object or a real number, not ''
         @ quoted ''NoneType''))"
| "py_int (PBool b) = Inr (if b then 1 else 0)"
| "py_int (PInt n) = Inr n"
| "py_int (PStr s) =
     (case int_of_str s of
        None \<Rightarrow> Inl (ValueError (''invalid literal for int() with base 10: '' @ quoted s))
      | Some n \<Rightarrow> Inr n)"

fun json_int :: "json \<Rightarrow> py_exception + int" where
  "json_int (JBool b) = Inr (if b then 1 else 0)"
| "json_int (JNum n) = Inr n"
| "json_int (JStr s) =
     (case int_of_str s of
        None \<Rightarrow> Inl (ValueError (''invalid literal for int() with base 10: '' @ quoted s))
      | Some n \<Rightarrow> Inr n)"
| "json_int v =
     Inl (TypeError
       (''int() argument must be a string, a bytes-like object or a real number, not ''
         @ quoted (type_name v)))"

text \<open>\<^verbatim>\<open>str(v)\<close>, the text an f-string inserts.\<close>

fun py_str :: "pyval \<Rightarrow> string" where
  "py_str PNone = ''None''"
| "py_str (PBool b) = (if b then ''True'' else ''False'')"
| "py_str (PInt n) = str_int n"
| "py_str (PStr s) = s"

section \<open>The provider client\<close>

type_synonym byte = "8 word"

text \<open>\<^verbatim>\<open>s.encode('utf-8')\<close>: a code point below 128 is one byte, one below 256 is two.\<close>

fun encode_utf8 :: "string \<Rightarrow> byte list" where
  "encode_utf8 [] = []"
| "encode_utf8 (c # cs) =
     (if (of_char c :: nat) < 128 then [of_nat (of_char c)]
      else [of_nat (192 + of_char c div 64), of_nat (128 + of_char c mod 64)])
     @ encode_utf8 cs"

text \<open>
  The attributes of a \<^verbatim>\<open>PayOSAPI\<close> object. \<open>checksum_key\<close> is optional because
  \<^verbatim>\<open>_create_signature\<close> tests it again; \<open>None\<close> is Python's \<^verbatim>\<open>None\<close>.
\<close>

record payos_api =
  api_key :: string
  client_id :: string
  checksum_key :: "string option"
  api_base_url :: string

text \<open>The process environment and the application's configuration, both with text values.\<close>

record app_config =
  environ :: "string \<rightharpoonup> string"
  config :: "string \<rightharpoonup> string"

text \<open>\<^verbatim>\<open>os.environ.get(k) or current_app.config.get(k)\<close>.\<close>

definition env_or_config :: "app_config \<Rightarrow> string \<Rightarrow> string option" where
  "env_or_config cfg k =
     (case environ cfg k of
        None \<Rightarrow> config cfg k
      | Some v \<Rightarrow> if v \<noteq> [] then Some v else config cfg k)"

text \<open>
  \<^verbatim>\<open>os.environ.get('PAYOS_API_URL') or current_app.config.get('PAYOS_API_URL', default)\<close>.
\<close>

definition base_url_setting :: "app_config \<Rightarrow> string" where
  "base_url_setting cfg =
     (let dflt = (case config cfg ''PAYOS_API_URL'' of
                    None \<Rightarrow> ''https://api-merchant.payos.vn''
                  | Some v \<Rightarrow> v)
      in case environ cfg ''PAYOS_API_URL'' of
           None \<Rightarrow> dflt
         | Some v \<Rightarrow> if v \<noteq> [] then v else dflt)"

text \<open>\<^verbatim>\<open>not v\<close> for a text that may be \<^verbatim>\<open>None\<close>.\<close>

fun absent :: "string option \<Rightarrow> bool" where
  "absent None = True"
| "absent (Some v) = (v = [])"

text \<open>
  \<^verbatim>\<open>PayOSAPI.__init__\<close>: the settings are read, then the three credentials are checked
  in turn; a missing one raises \<^verbatim>\<open>ValueError\<close>.
\<close>

definition PayOSAPI_init :: "app_config \<Rightarrow> py_exception + payos_api" where
  "PayOSAPI_init cfg =
     (let secret = env_or_config cfg ''PAYOS_SECRET_KEY'';
          base = base_url_setting cfg
      in case env_or_config cfg ''PAYOS_API_KEY'' of
           None \<Rightarrow>
             Inl (ValueError
               ''Missing PAYOS_API_KEY. Please set it in your environment or config.'')
         | Some k \<Rightarrow>
             if k = [] then
               Inl (ValueError
                 ''Missing PAYOS_API_KEY. Please set it in your environment or config.'')
             else
               (case env_or_config cfg ''PAYOS_CLIENT_ID'' of
                  None \<Rightarrow>
                    Inl (ValueError
                      ''Missing PAYOS_CLIENT_ID. Please set it in your environment or config.'')
                | Some c \<Rightarrow>
                    if c = [] then
                      Inl (ValueError
                        ''Missing PAYOS_CLIENT_ID. Please set it in your environment or config.'')
                    else if absent secret then
                      Inl (ValueError
                        ''Missing PAYOS_SECRET_KEY. Please set it in your environment or config.'')
                    else
                      Inr \<lparr>api_key = k, client_id = c, checksum_key = secret,
                           api_base_url = base\<rparr>))"

subsection \<open>The outbound payment request\<close>

record line_item =
  name :: string
  price :: int
  quantity :: int

text \<open>The dictionary \<^verbatim>\<open>payment_data\<close>, whose keys are fixed.\<close>

record payment_data =
  orderCode :: int
  amount :: int
  description :: string
  returnUrl :: string
  cancelUrl :: string
  items :: "line_item list"

record http_request =
  url :: string
  headers :: "(string \<times> string) list"
  json_body :: payment_data
  timeout :: nat

text \<open>
  What the client reads of a response: the status code, and what \<^verbatim>\<open>response.json()\<close>
  gives, an exception when the body is not JSON.
\<close>

record http_response =
  status_code :: int
  response_json :: "py_exception + json"

datatype endpoint = OrderDetail int | Checkout

text \<open>
  The libraries and collaborators outside the two source files, taken as parameters:
  \<^item> \<open>hmac_sha256_hexdigest k m\<close> is \<^verbatim>\<open>hmac.new(k, m, hashlib.sha256).hexdigest()\<close>;
  \<^item> \<open>json_dumps d\<close> is \<^verbatim>\<open>json.dumps(d, separators=(',', ':'), sort_keys=True)\<close>;
  \<^item> \<open>requests_post r\<close> is \<^verbatim>\<open>requests.post\<close>, which returns a response or raises
    (unreachable host, timeout);
  \<^item> \<open>verify_webhook api data\<close> is \<^verbatim>\<open>api.verify_webhook(data)\<close>, a method of the
    client that the handler calls and that \<^verbatim>\<open>services/payment.py\<close> does not define;
  \<^item> \<open>url_for e\<close> is the address the web framework gives an endpoint.
\<close>

record externals =
  hmac_sha256_hexdigest :: "byte list \<Rightarrow> byte list \<Rightarrow> string"
  json_dumps :: "json \<Rightarrow> py_exception + string"
  requests_post :: "http_request \<Rightarrow> py_exception + http_response"
  verify_webhook :: "payos_api \<Rightarrow> json \<Rightarrow> bool"
  url_for :: "endpoint \<Rightarrow> string"

text \<open>Lines 38 to 51 of \<^verbatim>\<open>create_payment\<close>: the payload.\<close>

definition build_payment_data :: "pyval \<Rightarrow> int \<Rightarrow> int \<Rightarrow> payment_data" where
  "build_payment_data order_id order_code amt =
     \<lparr>orderCode = order_code,
      amount = amt,
      description = ''Order #'' @ py_str order_id,
      returnUrl = ''http://127.0.0.1:5000/payment/success'',
      cancelUrl = ''http://127.0.0.1:5000/payment/cancel'',
      items = [\<lparr>name = ''Order #'' @ py_str order_id, price = amt, quantity = 1\<rparr>]\<rparr>"

text \<open>Lines 54 to 60: the text that is signed, read back from the payload.\<close>

definition signature_str :: "payment_data \<Rightarrow> string" where
  "signature_str pd =
     ''amount='' @ str_int (amount pd)
     @ ''&cancelUrl='' @ cancelUrl pd
     @ ''&description='' @ description pd
     @ ''&orderCode='' @ str_int (orderCode pd)
     @ ''&returnUrl='' @ returnUrl pd"

text \<open>
  Lines 34 to 83, up to the call of \<^verbatim>\<open>requests.post\<close>: the request that is sent, or the
  exception raised before anything is sent. The parameter \<open>descr\<close> is the argument
  \<^verbatim>\<open>description\<close>.
\<close>

definition create_payment_request ::
  "externals \<Rightarrow> payos_api \<Rightarrow> pyval \<Rightarrow> pyval \<Rightarrow> pyval \<Rightarrow> py_exception + http_request" where
  "create_payment_request ext api order_id amt descr =
     (case py_int amt of
        Inl e \<Rightarrow> Inl e
      | Inr amount_i \<Rightarrow>
          (case py_int order_id of
             Inl e \<Rightarrow> Inl e
           | Inr order_code \<Rightarrow>
               (let pd = build_payment_data order_id order_code amount_i
                in case checksum_key api of
                     None \<Rightarrow>
                       Inl (AttributeError
                         (quoted ''NoneType'' @ '' object has no attribute '' @ quoted ''encode''))
                   | Some secret \<Rightarrow>
                       (let signature =
                              hmac_sha256_hexdigest ext (encode_utf8 secret)
                                (encode_utf8 (signature_str pd))
                        in Inr \<lparr>url = api_base_url api @ ''/v2/payment-requests'',
                                headers =
                                  [(''Content-Type'', ''application/json''),
                                   (''x-client-id'', client_id api),
                                   (''x-api-key'', api_key api),
                                   (''x-signature'', signature)],
                                json_body = pd,
                                timeout = 15\<rparr>))))"

text \<open>Lines 97 to 101: the result for a response that does not report success.\<close>

definition payment_failure :: "json \<Rightarrow> py_exception + (string \<times> json) list" where
  "payment_failure response_data =
     (case py_get response_data ''desc'' of
        Inl e \<Rightarrow> Inl e
      | Inr desc \<Rightarrow>
          Inr [(''success'', JBool False), (''error'', desc), (''response'', response_data)])"

text \<open>Lines 90 to 95: the result for a response that reports success.\<close>

definition payment_success :: "json \<Rightarrow> py_exception + (string \<times> json) list" where
  "payment_success response_data =
     (case py_getitem response_data ''data'' of
        Inl e \<Rightarrow> Inl e
      | Inr d \<Rightarrow>
          (case py_getitem d ''checkoutUrl'' of
             Inl e \<Rightarrow> Inl e
           | Inr checkout_url \<Rightarrow>
               (case py_getitem d ''paymentLinkId'' of
                  Inl e \<Rightarrow> Inl e
                | Inr link_id \<Rightarrow>
                    (case py_getitem d ''qrCode'' of
                       Inl e \<Rightarrow> Inl e
                     | Inr qr \<Rightarrow>
                         Inr [(''success'', JBool True), (''payment_url'', checkout_url),
                              (''payment_id'', link_id), (''qr_code'', qr)]))))"

text \<open>Lines 88 to 101: \<^verbatim>\<open>and\<close> evaluates its second operand only when the first holds.\<close>

definition read_payment_response :: "http_response \<Rightarrow> py_exception + (string \<times> json) list" where
  "read_payment_response resp =
     (case response_json resp of
        Inl e \<Rightarrow> Inl e
      | Inr response_data \<Rightarrow>
          if status_code resp = 200 then
            (case py_get response_data ''code'' of
               Inl e \<Rightarrow> Inl e
             | Inr code \<Rightarrow>
                 if code = JStr ''00'' then payment_success response_data
                 else payment_failure response_data)
          else payment_failure response_data)"

text \<open>The body of the \<^verbatim>\<open>try\<close> block of \<^verbatim>\<open>create_payment\<close>.\<close>

definition create_payment_try ::
  "externals \<Rightarrow> payos_api \<Rightarrow> pyval \<Rightarrow> pyval \<Rightarrow> pyval \<Rightarrow> py_exception + (string \<times> json) list"
  where
  "create_payment_try ext api order_id amt descr =
     (case create_payment_request ext api order_id amt descr of
        Inl e \<Rightarrow> Inl e
      | Inr rq \<Rightarrow>
          (case requests_post ext rq of
             Inl e \<Rightarrow> Inl e
           | Inr resp \<Rightarrow> read_payment_response resp))"

text \<open>\<^verbatim>\<open>PayOSAPI.create_payment\<close>: the handler turns every exception into a result.\<close>

definition create_payment ::
  "externals \<Rightarrow> payos_api \<Rightarrow> pyval \<Rightarrow> pyval \<Rightarrow> pyval \<Rightarrow> (string \<times> json) list" where
  "create_payment ext api order_id amt descr =
     (case create_payment_try ext api order_id amt descr of
        Inl e \<Rightarrow> [(''success'', JBool False), (''error'', JStr (''Exception: '' @ exc_str e))]
      | Inr r \<Rightarrow> r)"


section \<open>Orders, carts and the handlers\<close>

text \<open>
  Modelled from the spec: the order and cart models (\<^verbatim>\<open>models/order.py\<close>,
  \<^verbatim>\<open>models/cart.py\<close>) are not among the source files. An order has an owner, a total,
  a status out of CREATED, PROCESSING, PAID and CANCELLED, a payment method and an
  optional payment reference; the one cart operation is to clear all items of a user.
  The id of an order is the key under which the database stores it; the database issues
  these keys, counted from 1. \<^verbatim>\<open>Order.query.get(n)\<close> is the lookup \<open>orders s n\<close>, an assignment to an attribute of
  the order it returns followed by \<^verbatim>\<open>db.session.commit()\<close> is an update of the table,
  and the store itself does not raise.
\<close>

datatype order_status = CREATED | PROCESSING | PAID | CANCELLED

record order =
  user_id :: int
  order_total :: int
  status :: order_status
  payment_method :: "string option"
  payment_id :: json

text \<open>
  The state the handlers share: the order table by id, the cart of each user, the calls
  of \<^verbatim>\<open>Cart.clear_cart\<close> so far (latest first), and the client object that
  \<^verbatim>\<open>get_payos_api\<close> keeps once it is built.
\<close>

record app_state =
  orders :: "int \<rightharpoonup> order"
  carts :: "int \<Rightarrow> string list"
  cart_clears :: "int list"
  payos_instance :: "payos_api option"

text \<open>Modelled from the spec: \<^verbatim>\<open>Cart.clear_cart(user)\<close> removes all items of the user.\<close>

definition clear_cart :: "int \<Rightarrow> app_state \<Rightarrow> app_state" where
  "clear_cart u s = s\<lparr>carts := (carts s)(u := []), cart_clears := u # cart_clears s\<rparr>"

text \<open>\<^verbatim>\<open>get_payos_api\<close>: builds the client on the first call that succeeds.\<close>

definition get_payos_api :: "app_config \<Rightarrow> app_state \<Rightarrow> (py_exception + payos_api) \<times> app_state" where
  "get_payos_api cfg s =
     (case payos_instance s of
        Some api \<Rightarrow> (Inr api, s)
      | None \<Rightarrow>
          (case PayOSAPI_init cfg of
             Inl e \<Rightarrow> (Inl e, s)
           | Inr api \<Rightarrow> (Inr api, s\<lparr>payos_instance := Some api\<rparr>)))"

text \<open>
  A response: \<^verbatim>\<open>jsonify(body), code\<close>, a redirect, or the rendered result page with its
  three arguments. Flash messages and log lines are left out.
\<close>

datatype response =
    Jsonify "(string \<times> json) list" int
  | Redirect string
  | RenderTemplate string "(string \<times> json) list"

definition webhook_error :: response where
  "webhook_error =
     Jsonify [(''success'', JBool False), (''message'', JStr ''Error processing webhook'')] 500"

text \<open>
  The body of a POST whose content type is JSON, as far as \<^verbatim>\<open>request.json\<close> tells bodies
  apart: a body of length zero, a text that is no JSON document, or a JSON document, given
  by its value. Requests of another content type are left out.
\<close>

datatype request_body = EmptyBody | MalformedBody | JsonBody json

text \<open>
  \<^verbatim>\<open>request.json\<close>: the value of the document; the framework raises \<^verbatim>\<open>BadRequest\<close>, an
  \<^verbatim>\<open>Exception\<close>, when the body is empty or does not parse.
\<close>

fun request_json :: "request_body \<Rightarrow> py_exception + json" where
  "request_json EmptyBody =
     Inl (LibraryError ''400 Bad Request: Failed to decode JSON object'')"
| "request_json MalformedBody =
     Inl (LibraryError ''400 Bad Request: Failed to decode JSON object'')"
| "request_json (JsonBody v) = Inr v"

text \<open>
  \<^verbatim>\<open>webhook\<close> for a request with the given body. Every exception inside the \<^verbatim>\<open>try\<close>
  block, the one of \<^verbatim>\<open>request.json\<close> included, ends in the response 500.
\<close>

definition webhook ::
  "externals \<Rightarrow> app_config \<Rightarrow> request_body \<Rightarrow> app_state \<Rightarrow> response \<times> app_state" where
  "webhook ext cfg body s =
     (case request_json body of
        Inl e \<Rightarrow> (webhook_error, s)
      | Inr data \<Rightarrow>
          (if \<not> truthy data then
             (Jsonify [(''success'', JBool False), (''message'', JStr ''No data received'')] 400, s)
           else
             (case get_payos_api cfg s of
                (Inl e, s1) \<Rightarrow> (webhook_error, s1)
              | (Inr api, s1) \<Rightarrow>
                  if \<not> verify_webhook ext api data then
                    (Jsonify [(''success'', JBool False), (''message'', JStr ''Invalid signature'')] 400,
                     s1)
                  else
                    (case data of
                       JObj d \<Rightarrow>
                         (let order_code = dict_get d ''orderCode'';
                              status_v = dict_get d ''status''
                          in if \<not> truthy order_code \<or> \<not> truthy status_v then
                               (Jsonify [(''success'', JBool False),
                                         (''message'', JStr ''Missing required fields'')] 400, s1)
                             else
                               (case json_int order_code of
                                  Inl e \<Rightarrow> (webhook_error, s1)
                                | Inr n \<Rightarrow>
                                    (case orders s1 n of
                                       None \<Rightarrow>
                                         (Jsonify [(''success'', JBool False),
                                                   (''message'', JStr ''Order not found'')] 404, s1)
                                     | Some ord \<Rightarrow>
                                         (let s2 =
                                            (if status_v = JStr ''success'' then
                                               clear_cart (user_id ord)
                                                 (s1\<lparr>orders := (orders s1)(n \<mapsto>
                                                    ord\<lparr>status := PAID,
                                                        payment_id := dict_get d ''transactionId''\<rparr>)\<rparr>)
                                             else if status_v = JStr ''failed''
                                                     \<or> status_v = JStr ''cancel'' then
                                               s1\<lparr>orders := (orders s1)(n \<mapsto>
                                                    ord\<lparr>status := CANCELLED\<rparr>)\<rparr>
                                             else s1)
                                          in (Jsonify [(''success'', JBool True),
                                                       (''message'',
                                                        JStr ''Webhook processed successfully'')] 200,
                                              s2)))))
                     | _ \<Rightarrow> (webhook_error, s1)))))"

text \<open>\<^verbatim>\<open>request.args.get(k, default)\<close> on the query parameters.\<close>

definition args_get :: "(string \<times> string) list \<Rightarrow> string \<Rightarrow> string \<Rightarrow> string" where
  "args_get args k dflt = (case map_of args k of None \<Rightarrow> dflt | Some v \<Rightarrow> v)"

definition result_page :: "(string \<times> string) list \<Rightarrow> response" where
  "result_page args =
     RenderTemplate ''payment/result.html''
       [(''status'', JStr (args_get args ''status'' ''unknown'')),
        (''transaction_id'', JStr (args_get args ''transactionId'' [])),
        (''error'', (case map_of args ''errorCode'' of None \<Rightarrow> JNull | Some v \<Rightarrow> JStr v))]"

text \<open>
  \<^verbatim>\<open>payment_result\<close>, with \<open>args\<close> the query parameters and \<open>current_user\<close> the id of the
  logged-in user, if any. An exception inside the \<^verbatim>\<open>try\<close> block (here: of \<^verbatim>\<open>int\<close>) is
  logged and the result page is rendered.
\<close>

definition payment_result ::
  "externals \<Rightarrow> (string \<times> string) list \<Rightarrow> int option \<Rightarrow> app_state \<Rightarrow> response \<times> app_state" where
  "payment_result ext args current_user s =
     (let status_v = args_get args ''status'' ''unknown'';
          transaction_id = args_get args ''transactionId'' []
      in case map_of args ''orderCode'' of
           None \<Rightarrow> (result_page args, s)
         | Some order_id \<Rightarrow>
             if order_id = [] then (result_page args, s)
             else
               (case int_of_str order_id of
                  None \<Rightarrow> (result_page args, s)
                | Some n \<Rightarrow>
                    (case orders s n of
                       None \<Rightarrow> (result_page args, s)
                     | Some ord \<Rightarrow>
                         if status_v = ''success'' then
                           (let s1 = clear_cart (user_id ord)
                                       (s\<lparr>orders := (orders s)(n \<mapsto>
                                          ord\<lparr>status := PAID,
                                              payment_id := JStr transaction_id\<rparr>)\<rparr>)
                            in if current_user = Some (user_id ord) then
                                 (Redirect (url_for ext (OrderDetail n)), s1)
                               else (result_page args, s1))
                         else if current_user = Some (user_id ord) then
                           (Redirect (url_for ext Checkout), s)
                         else (result_page args, s))))"

text \<open>
  The JSON document of a request to \<^verbatim>\<open>/process\<close>: an integer order id and a payment
  method, each of which may be missing. Other JSON types are left out: what the order
  query does with them is decided outside the source files.
\<close>

record process_body =
  body_order_id :: "int option"
  body_payment_method :: "string option"

definition process_error :: response where
  "process_error =
     Jsonify [(''success'', JBool False),
              (''error'', JStr ''An error occurred while processing your payment'')] 500"

text \<open>
  \<^verbatim>\<open>process_payment\<close> for the logged-in user \<open>current_user\<close>; \<open>req\<close> is what
  \<^verbatim>\<open>request.json\<close> gives, the document or the exception for a body that is empty or does
  not parse. The order query
  \<^verbatim>\<open>filter_by(id=order_id, user_id=current_user.id).first()\<close> finds the order with that id
  if it belongs to the user.
\<close>

definition process_payment ::
  "externals \<Rightarrow> app_config \<Rightarrow> int \<Rightarrow> py_exception + process_body \<Rightarrow> app_state \<Rightarrow>
     response \<times> app_state" where
  "process_payment ext cfg current_user req s =
     (case req of
        Inl e \<Rightarrow> (process_error, s)
      | Inr body \<Rightarrow>
          (case body_order_id body of
             None \<Rightarrow> (Jsonify [(''success'', JBool False), (''error'', JStr ''Missing order ID'')] 400, s)
           | Some oid \<Rightarrow>
               if oid = 0 then
                 (Jsonify [(''success'', JBool False), (''error'', JStr ''Missing order ID'')] 400, s)
               else
                 (case (case orders s oid of
                          None \<Rightarrow> None
                        | Some ord \<Rightarrow> if user_id ord = current_user then Some ord else None) of
                    None \<Rightarrow>
                      (Jsonify [(''success'', JBool False), (''error'', JStr ''Order not found'')] 404, s)
                  | Some ord \<Rightarrow>
                      (let payment_method_v = (case body_payment_method body of None \<Rightarrow> ''payos'' | Some m \<Rightarrow> m)
                       in if payment_method_v = ''payos'' then
                            (case get_payos_api cfg s of
                               (Inl e, s1) \<Rightarrow> (process_error, s1)
                             | (Inr api, s1) \<Rightarrow>
                                 (let result =
                                        create_payment ext api (PStr (str_int oid))
                                          (PInt (order_total ord))
                                          (PStr (''Payment for order '' @ str_int oid))
                                  in if \<not> truthy (dict_get result ''success'') then
                                       (Jsonify [(''success'', JBool False),
                                                 (''error'',
                                                  dict_get_default result ''error''
                                                    (JStr ''Payment initialization failed''))] 400,
                                        s1)
                                     else
                                       (Jsonify [(''success'', JBool True),
                                                 (''redirect_url'', dict_get result ''payment_url''),
                                                 (''requires_redirect'', JBool True)] 200,
                                        s1\<lparr>orders := (orders s1)(oid \<mapsto>
                                             ord\<lparr>payment_method := Some ''payos''\<rparr>)\<rparr>)))
                          else if payment_method_v = ''cod'' then
                            (Jsonify [(''success'', JBool True),
                                      (''redirect_url'', JStr (url_for ext (OrderDetail oid))),
                                      (''requires_redirect'', JBool False),
                                      (''message'', JStr ''Your order has been placed successfully!'')]
                               200,
                             clear_cart current_user
                               (s\<lparr>orders := (orders s)(oid \<mapsto>
                                  ord\<lparr>payment_method := Some ''cod'', status := PROCESSING\<rparr>)\<rparr>))
                          else
                            (Jsonify [(''success'', JBool False),
                                      (''error'', JStr ''Invalid payment method'')] 400, s)))))"

subsection \<open>Sequences of notifications\<close>




subsection \<open>An instance for the examples\<close>

text \<open>
  The examples below run the handlers on one concrete instance: libraries that answer
  with fixed values (the provider is unreachable), a verifier that accepts a body whose
  field \<^verbatim>\<open>signature\<close> is the text \<^verbatim>\<open>good\<close>, a complete configuration, and a shop with
  two orders.
\<close>

definition test_ext :: externals where
  "test_ext =
     \<lparr>hmac_sha256_hexdigest = (\<lambda>k m. ''5f3a''),
      json_dumps = (\<lambda>d. Inr ''{}''),
      requests_post = (\<lambda>r. Inl (LibraryError ''Connection refused'')),
      verify_webhook = (\<lambda>api d. py_get d ''signature'' = Inr (JStr ''good'')),
      url_for = (\<lambda>e. case e of OrderDetail n \<Rightarrow> ''/orders/'' @ str_int n
                                | Checkout \<Rightarrow> ''/cart/checkout'')\<rparr>"

definition test_cfg :: app_config where
  "test_cfg =
     \<lparr>environ = map_of [(''PAYOS_API_KEY'', ''key''), (''PAYOS_CLIENT_ID'', ''client''),
                        (''PAYOS_SECRET_KEY'', ''secret'')],
      config = Map.empty\<rparr>"

definition test_api :: payos_api where
  "test_api =
     \<lparr>api_key = ''key'', client_id = ''client'', checksum_key = Some ''secret'',
      api_base_url = ''https://api-merchant.payos.vn''\<rparr>"

definition test_order :: "int \<Rightarrow> order_status \<Rightarrow> order" where
  "test_order u st =
     \<lparr>user_id = u, order_total = 1000, status = st, payment_method = None, payment_id = JNull\<rparr>"

definition test_state :: app_state where
  "test_state =
     \<lparr>orders = map_of [(7, test_order 3 CREATED), (8, test_order 3 PAID)],
      carts = (\<lambda>u. [''book'']),
      cart_clears = [],
      payos_instance = None\<rparr>"

definition success_body :: "int \<Rightarrow> string \<Rightarrow> json" where
  "success_body n t =
     JObj [(''orderCode'', JNum n), (''status'', JStr ''success''),
           (''transactionId'', JStr t), (''signature'', JStr ''good'')]"


text \<open>The same notification with a signature the verifier rejects.\<close>

definition bad_body :: json where
  "bad_body =
     JObj [(''orderCode'', JNum 7), (''status'', JStr ''success''),
           (''transactionId'', JStr ''tx-9''), (''signature'', JStr ''forged'')]"


section \<open>Decimal round trip\<close>

lemma is_digit_digit_char: "d < 10 \<Longrightarrow> is_digit (digit_char d)"
  by (simp add: is_digit_def digit_char_def)

lemma digit_val_digit_char: "d < 10 \<Longrightarrow> digit_val (digit_char d) = d"
  by (simp add: digit_val_def digit_char_def)

lemma parse_digits_all:
  "\<forall>c \<in> set cs. is_digit c \<Longrightarrow>
     parse_digits acc cs = Some (foldl (\<lambda>a c. 10 * a + digit_val c) acc cs)"
  by (induction acc cs rule: parse_digits.induct) auto

lemma str_nat_digits: "\<forall>c \<in> set (str_nat n). is_digit c"
proof (induction n rule: str_nat.induct)
  case (1 n)
  show ?case
  proof (cases "n < 10")
    case True
    then show ?thesis
      by (simp add: str_nat.simps [of n] is_digit_digit_char)
  next
    case False
    with 1 show ?thesis
      by (simp add: str_nat.simps [of n] is_digit_digit_char)
  qed
qed

lemma str_nat_value: "foldl (\<lambda>a c. 10 * a + digit_val c) 0 (str_nat n) = n"
proof (induction n rule: str_nat.induct)
  case (1 n)
  show ?case
  proof (cases "n < 10")
    case True
    then show ?thesis
      by (simp add: str_nat.simps [of n] digit_val_digit_char)
  next
    case False
    with 1 show ?thesis
      by (simp add: str_nat.simps [of n] digit_val_digit_char)
  qed
qed

lemma str_nat_nonempty: "str_nat n \<noteq> []"
  by (subst str_nat.simps) simp

lemma parse_unsigned_str_nat: "parse_unsigned (str_nat n) = Some n"
proof (cases "str_nat n")
  case Nil
  then show ?thesis by (simp add: str_nat_nonempty)
next
  case (Cons c cs)
  have dig: "\<forall>x \<in> set (c # cs). is_digit x"
    using str_nat_digits [of n] Cons by simp
  have "foldl (\<lambda>a c. 10 * a + digit_val c) 0 (c # cs) = n"
    using str_nat_value [of n] Cons by simp
  then have "foldl (\<lambda>a c. 10 * a + digit_val c) (digit_val c) cs = n"
    by simp
  with dig Cons show ?thesis
    by (simp add: parse_unsigned_def parse_digits_all)
qed

lemma is_digit_not_space: "is_digit c \<Longrightarrow> \<not> is_space c"
  by (auto simp: is_digit_def is_space_def)

lemma strip_no_space:
  assumes "s \<noteq> []" "\<not> is_space (hd s)" "\<not> is_space (last s)"
  shows "strip s = s"
proof -
  from assms obtain c cs where s: "s = c # cs" by (cases s) auto
  with assms have 1: "dropWhile is_space s = s" by simp
  from assms have "rev s \<noteq> []" "\<not> is_space (hd (rev s))"
    by (simp_all add: hd_rev)
  then have 2: "dropWhile is_space (rev s) = rev s"
    by (cases "rev s") auto
  show ?thesis by (simp add: strip_def 1 2)
qed

lemma str_nat_hd_last: "is_digit (hd (str_nat n)) \<and> is_digit (last (str_nat n))"
  using str_nat_digits [of n] str_nat_nonempty [of n]
  by (metis hd_in_set last_in_set)

lemma is_digit_not_sign: "is_digit c \<Longrightarrow> c \<noteq> CHR ''-'' \<and> c \<noteq> CHR ''+''"
  by (auto simp: is_digit_def)

lemma int_of_str_str_int: "int_of_str (str_int i) = Some i"
proof (cases "i < 0")
  case True
  let ?s = "CHR ''-'' # str_nat (nat (- i))"
  have "last ?s = last (str_nat (nat (- i)))"
    by (simp add: str_nat_nonempty)
  then have "\<not> is_space (last ?s)"
    using str_nat_hd_last [of "nat (- i)"] by (simp add: is_digit_not_space)
  moreover have "\<not> is_space (hd ?s)"
    by (simp add: is_space_def)
  ultimately have "strip ?s = ?s"
    by (intro strip_no_space) simp_all
  with True show ?thesis
    by (simp add: int_of_str_def str_int_def parse_unsigned_str_nat)
next
  case False
  let ?s = "str_nat (nat i)"
  have st: "strip ?s = ?s"
    using str_nat_hd_last [of "nat i"] str_nat_nonempty [of "nat i"]
    by (intro strip_no_space) (simp_all add: is_digit_not_space)
  obtain c cs where s: "?s = c # cs"
    using str_nat_nonempty [of "nat i"] by (cases ?s) auto
  then have "is_digit c"
    using str_nat_hd_last [of "nat i"] by simp
  then have ns: "c \<noteq> CHR ''-''" "c \<noteq> CHR ''+''"
    using is_digit_not_sign by auto
  have "parse_unsigned (c # cs) = Some (nat i)"
    using parse_unsigned_str_nat [of "nat i"] s by simp
  with False st s ns show ?thesis
    by (simp add: int_of_str_def str_int_def)
qed

lemma str_int_nonempty: "str_int i \<noteq> []"
  by (simp add: str_int_def str_nat_nonempty)

lemma str_int_7: "str_int 7 = ''7''"
  by code_simp

lemma str_int_1000: "str_int 1000 = ''1000''"
  by code_simp

lemma int_of_str_7: "int_of_str ''7'' = Some 7"
  using int_of_str_str_int [of 7] by (simp add: str_int_7)

lemma int_of_str_abc: "int_of_str ''abc'' = None"
  by code_simp

section \<open>The client and the handlers on the shared state\<close>

lemma payment_failure_shape:
  "payment_failure rd = Inr r \<Longrightarrow>
     map_of r ''success'' = Some (JBool False) \<and> ''error'' \<in> dom (map_of r)"
  by (auto simp: payment_failure_def split: sum.splits)

lemma payment_success_shape:
  "payment_success rd = Inr r \<Longrightarrow> map_of r ''success'' = Some (JBool True)"
  by (auto simp: payment_success_def split: sum.splits)

lemma read_payment_response_shape:
  "read_payment_response resp = Inr r \<Longrightarrow>
     map_of r ''success'' = Some (JBool True) \<and> status_code resp = 200 \<and>
       (\<exists>rd. response_json resp = Inr rd \<and> py_get rd ''code'' = Inr (JStr ''00'')) \<or>
     map_of r ''success'' = Some (JBool False) \<and> ''error'' \<in> dom (map_of r)"
  by (auto simp: read_payment_response_def split: sum.splits if_splits
      dest: payment_failure_shape payment_success_shape)

lemma get_payos_api_test:
  "get_payos_api test_cfg test_state = (Inr test_api, test_state\<lparr>payos_instance := Some test_api\<rparr>)"
  by (simp add: get_payos_api_def test_state_def PayOSAPI_init_def test_cfg_def
      env_or_config_def base_url_setting_def test_api_def)

lemma get_payos_api_cached:
  "payos_instance s = Some api \<Longrightarrow> get_payos_api cfg s = (Inr api, s)"
  by (simp add: get_payos_api_def)

lemma get_payos_api_state:
  "get_payos_api cfg s = (r, s1) \<Longrightarrow>
     orders s1 = orders s \<and> carts s1 = carts s \<and> cart_clears s1 = cart_clears s"
  by (auto simp: get_payos_api_def split: option.splits sum.splits)

lemma webhook_verified_success:
  assumes api: "get_payos_api cfg s = (Inr api, s1)"
    and ver: "verify_webhook ext api (JObj d)"
    and oc: "map_of d ''orderCode'' = Some (JNum n)" and nz: "n \<noteq> 0"
    and st: "map_of d ''status'' = Some (JStr ''success'')"
    and ord: "orders s n = Some ord"
  shows "webhook ext cfg (JsonBody (JObj d)) s =
     (Jsonify [(''success'', JBool True), (''message'', JStr ''Webhook processed successfully'')] 200,
      clear_cart (user_id ord)
        (s1\<lparr>orders := (orders s1)(n \<mapsto> ord\<lparr>status := PAID, payment_id := dict_get d ''transactionId''\<rparr>)\<rparr>))"
proof -
  have d: "d \<noteq> []" using oc by auto
  have o1: "orders s1 n = Some ord"
    using get_payos_api_state [OF api] ord by simp
  show ?thesis
    using api ver oc nz st o1 d
    by (simp add: webhook_def dict_get_def)
qed







lemma get_payos_api_instance:
  "get_payos_api cfg s = (Inr api, s1) \<Longrightarrow> payos_instance s1 = Some api"
  by (auto simp: get_payos_api_def split: option.splits sum.splits)

section \<open>A provider success arriving by webhook\<close>

text \<open>
  C1. For every order with status CREATED and id \<open>n\<close>, a webhook whose JSON body carries
  \<^verbatim>\<open>orderCode\<close> \<open>n\<close>, \<^verbatim>\<open>status\<close> \<^verbatim>\<open>success\<close> and \<^verbatim>\<open>transactionId\<close> \<open>t\<close>, and that the client
  verifies, is answered with \<^verbatim>\<open>success: true\<close>; afterwards the order is PAID, its
  payment id is \<open>t\<close> and the owner's cart has been cleared. Order ids are the keys the
  database issues, counted from 1, hence \<open>n \<noteq> 0\<close>.
\<close>

theorem webhook_success_marks_paid:
  assumes "orders s n = Some ord" and "status ord = CREATED" and "n \<noteq> 0"
    and "fst (get_payos_api cfg s) = Inr api"
    and "verify_webhook ext api (JObj d)"
    and "map_of d ''orderCode'' = Some (JNum n)"
    and "map_of d ''status'' = Some (JStr ''success'')"
    and "map_of d ''transactionId'' = Some t"
  shows "fst (webhook ext cfg (JsonBody (JObj d)) s) =
           Jsonify [(''success'', JBool True),
                    (''message'', JStr ''Webhook processed successfully'')] 200 \<and>
         orders (snd (webhook ext cfg (JsonBody (JObj d)) s)) n = Some (ord\<lparr>status := PAID, payment_id := t\<rparr>) \<and>
         carts (snd (webhook ext cfg (JsonBody (JObj d)) s)) (user_id ord) = [] \<and>
         cart_clears (snd (webhook ext cfg (JsonBody (JObj d)) s)) = user_id ord # cart_clears s"
proof -
  obtain s1 where api: "get_payos_api cfg s = (Inr api, s1)"
    using assms(4) by (cases "get_payos_api cfg s") auto
  have "cart_clears s1 = cart_clears s"
    using get_payos_api_state [OF api] by simp
  then show ?thesis
    using webhook_verified_success [OF api assms(5) assms(6) assms(3) assms(7) assms(1)] assms(8)
    by (simp add: clear_cart_def dict_get_def)
qed

theorem webhook_success_marks_paid_witness:
  "orders test_state 7 = Some (test_order 3 CREATED) \<and>
   verify_webhook test_ext test_api (success_body 7 ''tx-9'') \<and>
   fst (webhook test_ext test_cfg (JsonBody (success_body 7 ''tx-9'')) test_state) =
     Jsonify [(''success'', JBool True),
              (''message'', JStr ''Webhook processed successfully'')] 200 \<and>
   orders (snd (webhook test_ext test_cfg (JsonBody (success_body 7 ''tx-9'')) test_state)) 7 =
     Some (test_order 3 CREATED\<lparr>status := PAID, payment_id := JStr ''tx-9''\<rparr>) \<and>
   carts (snd (webhook test_ext test_cfg (JsonBody (success_body 7 ''tx-9'')) test_state)) 3 = [] \<and>
   cart_clears (snd (webhook test_ext test_cfg (JsonBody (success_body 7 ''tx-9'')) test_state)) = [3]"
proof -
  let ?d = "[(''orderCode'', JNum 7), (''status'', JStr ''success''),
             (''transactionId'', JStr ''tx-9''), (''signature'', JStr ''good'')]"
  have h1: "orders test_state 7 = Some (test_order 3 CREATED)"
    by (simp add: test_state_def)
  have h2: "status (test_order 3 CREATED) = CREATED"
    by (simp add: test_order_def)
  have h3: "(7::int) \<noteq> 0" by simp
  have h4: "fst (get_payos_api test_cfg test_state) = Inr test_api"
    by (simp add: get_payos_api_test)
  have h5: "verify_webhook test_ext test_api (JObj ?d)"
    by (simp add: test_ext_def dict_get_def)
  have h6: "map_of ?d ''orderCode'' = Some (JNum 7)" by simp
  have h7: "map_of ?d ''status'' = Some (JStr ''success'')" by simp
  have h8: "map_of ?d ''transactionId'' = Some (JStr ''tx-9'')" by simp
  have u: "user_id (test_order 3 CREATED) = 3" "cart_clears test_state = []"
    by (simp_all add: test_order_def test_state_def)
  from webhook_success_marks_paid [OF h1 h2 h3 h4 h5 h6 h7 h8] h1 h5 u
  show ?thesis by (simp add: success_body_def)
qed

section \<open>Rejected webhooks\<close>

text \<open>
  C2. A webhook whose body is a JSON document with a false value (\<^verbatim>\<open>null\<close>, \<^verbatim>\<open>false\<close>,
  \<^verbatim>\<open>0\<close>, an empty text, list or object) is answered with 400. With a provider client at
  hand, a JSON body of true value that the client does not verify is answered with 400,
  and orders and carts are as before. A verified body whose \<^verbatim>\<open>orderCode\<close> and \<^verbatim>\<open>status\<close>
  are both present and true, with an \<^verbatim>\<open>orderCode\<close> that \<^verbatim>\<open>int\<close> converts to an id no order
  has, is answered with 404.
\<close>

theorem webhook_rejections:
  "(\<not> truthy data \<longrightarrow>
      webhook ext cfg (JsonBody data) s =
        (Jsonify [(''success'', JBool False), (''message'', JStr ''No data received'')] 400, s)) \<and>
   (truthy data \<and> fst (get_payos_api cfg s) = Inr api \<and> \<not> verify_webhook ext api data \<longrightarrow>
      fst (webhook ext cfg (JsonBody data) s) =
        Jsonify [(''success'', JBool False), (''message'', JStr ''Invalid signature'')] 400 \<and>
      orders (snd (webhook ext cfg (JsonBody data) s)) = orders s \<and>
      carts (snd (webhook ext cfg (JsonBody data) s)) = carts s \<and>
      cart_clears (snd (webhook ext cfg (JsonBody data) s)) = cart_clears s) \<and>
   (fst (get_payos_api cfg s) = Inr api \<and> verify_webhook ext api (JObj d) \<and>
    truthy (dict_get d ''orderCode'') \<and> truthy (dict_get d ''status'') \<and>
    json_int (dict_get d ''orderCode'') = Inr n \<and> orders s n = None \<longrightarrow>
      fst (webhook ext cfg (JsonBody (JObj d)) s) =
        Jsonify [(''success'', JBool False), (''message'', JStr ''Order not found'')] 404 \<and>
      orders (snd (webhook ext cfg (JsonBody (JObj d)) s)) = orders s \<and>
      carts (snd (webhook ext cfg (JsonBody (JObj d)) s)) = carts s \<and>
      cart_clears (snd (webhook ext cfg (JsonBody (JObj d)) s)) = cart_clears s)"
proof (intro conjI impI)
  assume "\<not> truthy data"
  then show "webhook ext cfg (JsonBody data) s =
        (Jsonify [(''success'', JBool False), (''message'', JStr ''No data received'')] 400, s)"
    by (simp add: webhook_def)
next
  assume a: "truthy data \<and> fst (get_payos_api cfg s) = Inr api \<and> \<not> verify_webhook ext api data"
  then obtain s1 where api: "get_payos_api cfg s = (Inr api, s1)"
    by (cases "get_payos_api cfg s") auto
  from a api have w: "webhook ext cfg (JsonBody data) s =
      (Jsonify [(''success'', JBool False), (''message'', JStr ''Invalid signature'')] 400, s1)"
    by (simp add: webhook_def)
  from w show "fst (webhook ext cfg (JsonBody data) s) =
        Jsonify [(''success'', JBool False), (''message'', JStr ''Invalid signature'')] 400"
    by simp
  from w get_payos_api_state [OF api]
  show "orders (snd (webhook ext cfg (JsonBody data) s)) = orders s"
    "carts (snd (webhook ext cfg (JsonBody data) s)) = carts s"
    "cart_clears (snd (webhook ext cfg (JsonBody data) s)) = cart_clears s"
    by simp_all
next
  assume a: "fst (get_payos_api cfg s) = Inr api \<and> verify_webhook ext api (JObj d) \<and>
    truthy (dict_get d ''orderCode'') \<and> truthy (dict_get d ''status'') \<and>
    json_int (dict_get d ''orderCode'') = Inr n \<and> orders s n = None"
  then obtain s1 where api: "get_payos_api cfg s = (Inr api, s1)"
    by (cases "get_payos_api cfg s") auto
  have d: "d \<noteq> []" using a by (auto simp: dict_get_def)
  have o1: "orders s1 n = None"
    using get_payos_api_state [OF api] a by simp
  from a api d o1 have w: "webhook ext cfg (JsonBody (JObj d)) s =
      (Jsonify [(''success'', JBool False), (''message'', JStr ''Order not found'')] 404, s1)"
    by (simp add: webhook_def)
  from w show "fst (webhook ext cfg (JsonBody (JObj d)) s) =
        Jsonify [(''success'', JBool False), (''message'', JStr ''Order not found'')] 404"
    by simp
  from w get_payos_api_state [OF api]
  show "orders (snd (webhook ext cfg (JsonBody (JObj d)) s)) = orders s"
    "carts (snd (webhook ext cfg (JsonBody (JObj d)) s)) = carts s"
    "cart_clears (snd (webhook ext cfg (JsonBody (JObj d)) s)) = cart_clears s"
    by simp_all
qed

theorem webhook_rejections_witness:
  "webhook test_ext test_cfg (JsonBody JNull) test_state =
     (Jsonify [(''success'', JBool False), (''message'', JStr ''No data received'')] 400, test_state) \<and>
   \<not> verify_webhook test_ext test_api bad_body \<and>
   fst (webhook test_ext test_cfg (JsonBody bad_body) test_state) =
     Jsonify [(''success'', JBool False), (''message'', JStr ''Invalid signature'')] 400 \<and>
   orders (snd (webhook test_ext test_cfg (JsonBody bad_body) test_state)) = orders test_state \<and>
   carts (snd (webhook test_ext test_cfg (JsonBody bad_body) test_state)) = carts test_state \<and>
   orders test_state 5 = None \<and>
   verify_webhook test_ext test_api (success_body 5 ''tx-9'') \<and>
   fst (webhook test_ext test_cfg (JsonBody (success_body 5 ''tx-9'')) test_state) =
     Jsonify [(''success'', JBool False), (''message'', JStr ''Order not found'')] 404"
proof -
  let ?d = "[(''orderCode'', JNum 5), (''status'', JStr ''success''),
             (''transactionId'', JStr ''tx-9''), (''signature'', JStr ''good'')]"
  have api: "fst (get_payos_api test_cfg test_state) = Inr test_api"
    by (simp add: get_payos_api_test)
  have e: "\<not> truthy JNull" by simp
  have b: "truthy bad_body" "\<not> verify_webhook test_ext test_api bad_body"
    by (simp_all add: bad_body_def test_ext_def dict_get_def)
  have g: "verify_webhook test_ext test_api (JObj ?d)"
    "truthy (dict_get ?d ''orderCode'')" "truthy (dict_get ?d ''status'')"
    "json_int (dict_get ?d ''orderCode'') = Inr 5" "orders test_state 5 = None"
    by (simp_all add: test_ext_def dict_get_def test_state_def)
  from webhook_rejections [of JNull test_ext test_cfg test_state test_api ?d 5]
    webhook_rejections [of bad_body test_ext test_cfg test_state test_api ?d 5]
    api e b g
  show ?thesis by (simp add: success_body_def)
qed

text \<open>
  A request with a body of length zero: \<^verbatim>\<open>request.json\<close> raises inside the \<^verbatim>\<open>try\<close>
  block and the answer is 500, not 400. A verified body that names order 5, which does
  not exist, and has no \<^verbatim>\<open>status\<close>: the answer is 400, not 404. And without credentials
  no client can be built: a body with a forged signature is then answered with 500, not
  400.
\<close>

theorem webhook_rejections_counterexample:
  "webhook test_ext test_cfg EmptyBody test_state =
     (Jsonify [(''success'', JBool False), (''message'', JStr ''Error processing webhook'')] 500,
      test_state) \<and>
   orders test_state 5 = None \<and>
   verify_webhook test_ext test_api (JObj [(''orderCode'', JNum 5), (''signature'', JStr ''good'')]) \<and>
   fst (webhook test_ext test_cfg
          (JsonBody (JObj [(''orderCode'', JNum 5), (''signature'', JStr ''good'')])) test_state) =
     Jsonify [(''success'', JBool False), (''message'', JStr ''Missing required fields'')] 400 \<and>
   truthy bad_body \<and> \<not> verify_webhook test_ext test_api bad_body \<and>
   fst (webhook test_ext \<lparr>environ = Map.empty, config = Map.empty\<rparr> (JsonBody bad_body)
          test_state) =
     Jsonify [(''success'', JBool False), (''message'', JStr ''Error processing webhook'')] 500"
proof -
  have "webhook test_ext test_cfg EmptyBody test_state =
     (Jsonify [(''success'', JBool False), (''message'', JStr ''Error processing webhook'')] 500,
      test_state)"
    by (simp add: webhook_def webhook_error_def)
  moreover have "get_payos_api \<lparr>environ = Map.empty, config = Map.empty\<rparr> test_state =
      (Inl (ValueError ''Missing PAYOS_API_KEY. Please set it in your environment or config.''),
       test_state)"
    by (simp add: get_payos_api_def PayOSAPI_init_def env_or_config_def test_state_def)
  then have "fst (webhook test_ext \<lparr>environ = Map.empty, config = Map.empty\<rparr> (JsonBody bad_body)
          test_state) =
     Jsonify [(''success'', JBool False), (''message'', JStr ''Error processing webhook'')] 500"
    by (simp add: webhook_def bad_body_def webhook_error_def)
  moreover have "truthy bad_body" "\<not> verify_webhook test_ext test_api bad_body"
    by (simp_all add: bad_body_def test_ext_def dict_get_def)
  moreover have "orders test_state 5 = None"
    by (simp add: test_state_def)
  moreover have
    "verify_webhook test_ext test_api (JObj [(''orderCode'', JNum 5), (''signature'', JStr ''good'')])"
    by (simp add: test_ext_def dict_get_def)
  moreover have "fst (webhook test_ext test_cfg
          (JsonBody (JObj [(''orderCode'', JNum 5), (''signature'', JStr ''good'')])) test_state) =
     Jsonify [(''success'', JBool False), (''message'', JStr ''Missing required fields'')] 400"
    by (simp add: webhook_def get_payos_api_test dict_get_def test_ext_def)
  ultimately show ?thesis by simp
qed

section \<open>A success notification delivered again\<close>

text \<open>
  C3. A verified success webhook for an order that is already PAID (id not 0) is
  answered with the success acknowledgment and leaves the status PAID, but it is no
  no-op: the payment id is assigned again from the notification and the owner's cart is
  cleared again. Two successive deliveries add two calls of the cart clearing.
\<close>

theorem webhook_success_repeats:
  assumes "orders s n = Some ord" and "status ord = PAID" and "n \<noteq> 0"
    and "fst (get_payos_api cfg s) = Inr api"
    and "verify_webhook ext api (JObj d)"
    and "map_of d ''orderCode'' = Some (JNum n)"
    and "map_of d ''status'' = Some (JStr ''success'')"
    and "map_of d ''transactionId'' = Some t"
  shows "fst (webhook ext cfg (JsonBody (JObj d)) s) =
           Jsonify [(''success'', JBool True),
                    (''message'', JStr ''Webhook processed successfully'')] 200 \<and>
         orders (snd (webhook ext cfg (JsonBody (JObj d)) s)) = (orders s)(n \<mapsto> ord\<lparr>payment_id := t\<rparr>) \<and>
         carts (snd (webhook ext cfg (JsonBody (JObj d)) s)) = (carts s)(user_id ord := []) \<and>
         cart_clears (snd (webhook ext cfg (JsonBody (JObj d)) s)) = user_id ord # cart_clears s \<and>
         cart_clears (snd (webhook ext cfg (JsonBody (JObj d)) (snd (webhook ext cfg (JsonBody (JObj d)) s)))) =
           user_id ord # user_id ord # cart_clears s"
proof -
  obtain s1 where api: "get_payos_api cfg s = (Inr api, s1)"
    using assms(4) by (cases "get_payos_api cfg s") auto
  note st = get_payos_api_state [OF api]
  let ?ord' = "ord\<lparr>status := PAID, payment_id := t\<rparr>"
  let ?s2 = "clear_cart (user_id ord) (s1\<lparr>orders := (orders s1)(n \<mapsto> ?ord')\<rparr>)"
  have w1: "webhook ext cfg (JsonBody (JObj d)) s =
     (Jsonify [(''success'', JBool True), (''message'', JStr ''Webhook processed successfully'')] 200,
      ?s2)"
    using webhook_verified_success [OF api assms(5) assms(6) assms(3) assms(7) assms(1)] assms(8)
    by (simp add: dict_get_def)
  have same: "?ord' = ord\<lparr>payment_id := t\<rparr>"
    using assms(2) by simp
  have api2: "get_payos_api cfg ?s2 = (Inr api, ?s2)"
    using get_payos_api_instance [OF api]
    by (intro get_payos_api_cached) (simp add: clear_cart_def)
  have o2: "orders ?s2 n = Some ?ord'"
    by (simp add: clear_cart_def)
  have w2: "cart_clears (snd (webhook ext cfg (JsonBody (JObj d)) ?s2)) = user_id ord # user_id ord # cart_clears s"
    using webhook_verified_success [OF api2 assms(5) assms(6) assms(3) assms(7) o2] st
    by (simp add: clear_cart_def)
  from w1 w2 st same show ?thesis
    by (simp add: clear_cart_def)
qed

theorem webhook_success_repeats_witness:
  "orders test_state 8 = Some (test_order 3 PAID) \<and>
   verify_webhook test_ext test_api (success_body 8 ''tx-9'') \<and>
   fst (webhook test_ext test_cfg (JsonBody (success_body 8 ''tx-9'')) test_state) =
     Jsonify [(''success'', JBool True),
              (''message'', JStr ''Webhook processed successfully'')] 200 \<and>
   carts test_state 3 = [''book''] \<and>
   carts (snd (webhook test_ext test_cfg (JsonBody (success_body 8 ''tx-9'')) test_state)) 3 = [] \<and>
   cart_clears test_state = [] \<and>
   cart_clears (snd (webhook test_ext test_cfg (JsonBody (success_body 8 ''tx-9'')) test_state)) = [3]"
proof -
  let ?d = "[(''orderCode'', JNum 8), (''status'', JStr ''success''),
             (''transactionId'', JStr ''tx-9''), (''signature'', JStr ''good'')]"
  have h1: "orders test_state 8 = Some (test_order 3 PAID)"
    by (simp add: test_state_def)
  have h2: "status (test_order 3 PAID) = PAID"
    by (simp add: test_order_def)
  have h3: "(8::int) \<noteq> 0" by simp
  have h4: "fst (get_payos_api test_cfg test_state) = Inr test_api"
    by (simp add: get_payos_api_test)
  have h5: "verify_webhook test_ext test_api (JObj ?d)"
    by (simp add: test_ext_def dict_get_def)
  have h6: "map_of ?d ''orderCode'' = Some (JNum 8)" by simp
  have h7: "map_of ?d ''status'' = Some (JStr ''success'')" by simp
  have h8: "map_of ?d ''transactionId'' = Some (JStr ''tx-9'')" by simp
  have u: "user_id (test_order 3 PAID) = 3" "cart_clears test_state = []"
    "carts test_state 3 = [''book'']"
    by (simp_all add: test_order_def test_state_def)
  from webhook_success_repeats [OF h1 h2 h3 h4 h5 h6 h7 h8] h1 h5 u
  show ?thesis by (simp add: success_body_def)
qed

text \<open>
  Order 7 receives the same verified success notification twice: the cart clearing runs
  twice, and items put into the cart between the two deliveries are removed by the second.
\<close>

theorem webhook_twice_counterexample:
  "map_option status
     (orders (snd (webhook test_ext test_cfg (JsonBody (success_body 7 ''tx-9'')) test_state)) 7) = Some PAID \<and>
   cart_clears (snd (webhook test_ext test_cfg (JsonBody (success_body 7 ''tx-9'')) test_state)) = [3] \<and>
   carts (snd (webhook test_ext test_cfg (JsonBody (success_body 7 ''tx-9''))
            ((snd (webhook test_ext test_cfg (JsonBody (success_body 7 ''tx-9'')) test_state))
               \<lparr>carts := (\<lambda>u. [''pen''])\<rparr>))) 3 = [] \<and>
   cart_clears (snd (webhook test_ext test_cfg (JsonBody (success_body 7 ''tx-9''))
            (snd (webhook test_ext test_cfg (JsonBody (success_body 7 ''tx-9'')) test_state)))) = [3, 3]"
proof -
  let ?d = "[(''orderCode'', JNum 7), (''status'', JStr ''success''),
             (''transactionId'', JStr ''tx-9''), (''signature'', JStr ''good'')]"
  have ver: "verify_webhook test_ext test_api (JObj ?d)"
    by (simp add: test_ext_def dict_get_def)
  have o: "orders test_state 7 = Some (test_order 3 CREATED)"
    by (simp add: test_state_def)
  note w1 = webhook_verified_success [OF get_payos_api_test ver _ _ _ o, simplified]
  let ?s1 = "snd (webhook test_ext test_cfg (JsonBody (JObj ?d)) test_state)"
  have s1: "?s1 = clear_cart 3 (test_state\<lparr>payos_instance := Some test_api,
       orders := (orders test_state)(7 \<mapsto> test_order 3 CREATED\<lparr>status := PAID, payment_id := JStr ''tx-9''\<rparr>)\<rparr>)"
    using w1 by (simp add: dict_get_def test_order_def)
  have api1: "get_payos_api test_cfg ?s1 = (Inr test_api, ?s1)"
    by (intro get_payos_api_cached) (simp add: s1 clear_cart_def)
  have o1: "orders ?s1 7 = Some (test_order 3 CREATED\<lparr>status := PAID, payment_id := JStr ''tx-9''\<rparr>)"
    by (simp add: s1 clear_cart_def)
  note w2 = webhook_verified_success [OF api1 ver _ _ _ o1, simplified]
  let ?s1' = "?s1\<lparr>carts := (\<lambda>u. [''pen''])\<rparr>"
  have api1': "get_payos_api test_cfg ?s1' = (Inr test_api, ?s1')"
    by (intro get_payos_api_cached) (simp add: s1 clear_cart_def)
  have o1': "orders ?s1' 7 = Some (test_order 3 CREATED\<lparr>status := PAID, payment_id := JStr ''tx-9''\<rparr>)"
    by (simp add: s1 clear_cart_def)
  note w3 = webhook_verified_success [OF api1' ver _ _ _ o1', simplified]
  have c: "cart_clears ?s1 = [3]"
    unfolding s1 by (simp add: clear_cart_def test_state_def)
  show ?thesis
    unfolding success_body_def
    using o1 c w2 w3
    by (simp add: clear_cart_def test_order_def)
qed

section \<open>Payment creation always returns a result\<close>

text \<open>
  C4. For every order id, amount and description, every behaviour of the transport (an
  exception, any status code, a body that is not JSON or not of the expected shape) and
  every client, \<^verbatim>\<open>create_payment\<close> returns a dictionary whose key \<^verbatim>\<open>success\<close> holds a
  boolean. It is \<^verbatim>\<open>True\<close> only when the request was built, the transport returned
  status 200 and the JSON body has code \<^verbatim>\<open>00\<close>; in every other case it is \<^verbatim>\<open>False\<close>
  and the key \<^verbatim>\<open>error\<close> is present.
\<close>

theorem create_payment_returns_result:
  "map_of (create_payment ext api order_id amt descr) ''success'' = Some (JBool True) \<and>
     (\<exists>rq resp rd. create_payment_request ext api order_id amt descr = Inr rq \<and>
        requests_post ext rq = Inr resp \<and> status_code resp = 200 \<and>
        response_json resp = Inr rd \<and> py_get rd ''code'' = Inr (JStr ''00'')) \<or>
   map_of (create_payment ext api order_id amt descr) ''success'' = Some (JBool False) \<and>
     ''error'' \<in> dom (map_of (create_payment ext api order_id amt descr))"
proof (cases "create_payment_try ext api order_id amt descr")
  case (Inl e)
  then show ?thesis by (simp add: create_payment_def)
next
  case (Inr r)
  then obtain rq resp where rq: "create_payment_request ext api order_id amt descr = Inr rq"
    and resp: "requests_post ext rq = Inr resp" and rd: "read_payment_response resp = Inr r"
    by (auto simp: create_payment_try_def split: sum.splits)
  from read_payment_response_shape [OF rd] Inr rq resp show ?thesis
    by (auto simp: create_payment_def)
qed

text \<open>An order id that is not a number, and a provider that cannot be reached.\<close>

theorem create_payment_returns_result_witness:
  "create_payment test_ext test_api (PStr ''abc'') (PInt 1000) (PStr ''Payment'') =
     [(''success'', JBool False),
      (''error'', JStr (''Exception: invalid literal for int() with base 10: '' @ quoted ''abc''))] \<and>
   create_payment test_ext test_api (PStr ''7'') (PInt 1000) (PStr ''Payment'') =
     [(''success'', JBool False), (''error'', JStr ''Exception: Connection refused'')]"
  using create_payment_returns_result [of test_ext test_api "PStr ''abc''" "PInt 1000" "PStr ''Payment''"]
    create_payment_returns_result [of test_ext test_api "PStr ''7''" "PInt 1000" "PStr ''Payment''"]
  by (simp add: create_payment_def create_payment_try_def create_payment_request_def
      int_of_str_abc int_of_str_7 test_api_def test_ext_def Let_def)

section \<open>Notifications and the status of an order\<close>




section \<open>Signing without a secret\<close>



section \<open>The signature of a payment request\<close>

text \<open>
  C7. Whenever \<^verbatim>\<open>create_payment\<close> sends a request, its header \<^verbatim>\<open>x-signature\<close> is the hex
  digest of HMAC-SHA256, keyed by the UTF-8 bytes of the secret, of the UTF-8 bytes of
  the text \<^verbatim>\<open>amount=..&cancelUrl=..&description=..&orderCode=..&returnUrl=..\<close> whose five values
  are those of the payload that is sent.
\<close>

theorem outbound_signature:
  assumes "create_payment_request ext api order_id amt descr = Inr rq"
  shows "\<exists>secret. checksum_key api = Some secret \<and>
     map_of (headers rq) ''x-signature'' =
       Some (hmac_sha256_hexdigest ext (encode_utf8 secret)
         (encode_utf8
           (''amount='' @ str_int (amount (json_body rq))
            @ ''&cancelUrl='' @ cancelUrl (json_body rq)
            @ ''&description='' @ description (json_body rq)
            @ ''&orderCode='' @ str_int (orderCode (json_body rq))
            @ ''&returnUrl='' @ returnUrl (json_body rq))))"
  using assms
  by (auto simp: create_payment_request_def signature_str_def Let_def split: sum.splits option.splits)

theorem outbound_signature_witness:
  "\<exists>rq. create_payment_request test_ext test_api (PStr ''7'') (PInt 1000) (PStr ''Payment'') = Inr rq \<and>
     orderCode (json_body rq) = 7 \<and> amount (json_body rq) = 1000 \<and>
     description (json_body rq) = ''Order #7'' \<and>
     map_of (headers rq) ''x-signature'' =
       Some (hmac_sha256_hexdigest test_ext (encode_utf8 ''secret'')
         (encode_utf8 (''amount=1000&cancelUrl=http://127.0.0.1:5000/payment/cancel''
            @ ''&description=Order #7&orderCode=7''
            @ ''&returnUrl=http://127.0.0.1:5000/payment/success'')))"
proof -
  let ?rq = "\<lparr>url = ''https://api-merchant.payos.vn/v2/payment-requests'',
       headers = [(''Content-Type'', ''application/json''), (''x-client-id'', ''client''),
                  (''x-api-key'', ''key''),
                  (''x-signature'',
                   hmac_sha256_hexdigest test_ext (encode_utf8 ''secret'')
                     (encode_utf8 (signature_str (build_payment_data (PStr ''7'') 7 1000))))],
       json_body = build_payment_data (PStr ''7'') 7 1000, timeout = 15\<rparr>"
  have rq: "create_payment_request test_ext test_api (PStr ''7'') (PInt 1000) (PStr ''Payment'') = Inr ?rq"
    by (simp add: create_payment_request_def int_of_str_7 test_api_def Let_def)
  have k: "checksum_key test_api = Some ''secret''"
    by (simp add: test_api_def)
  from outbound_signature [OF rq] k rq show ?thesis
    by (simp add: build_payment_data_def str_int_7 str_int_1000)
qed

section \<open>Paying for the order of another user\<close>

text \<open>
  C8. For every logged-in user and every order that is not an order of this user (an
  order of another user, or an id no order has), \<^verbatim>\<open>process_payment\<close> answers 404 and
  changes nothing. Order ids are the keys the database issues, counted from 1, hence
  \<open>oid \<noteq> 0\<close>.
\<close>

theorem process_payment_foreign_order:
  assumes "body_order_id body = Some oid" and "oid \<noteq> 0"
    and "\<forall>ord. orders s oid = Some ord \<longrightarrow> user_id ord \<noteq> current_user"
  shows "process_payment ext cfg current_user (Inr body) s =
     (Jsonify [(''success'', JBool False), (''error'', JStr ''Order not found'')] 404, s)"
  using assms by (auto simp: process_payment_def split: option.splits)

theorem process_payment_foreign_order_witness:
  "orders test_state 7 = Some (test_order 3 CREATED) \<and>
   process_payment test_ext test_cfg 4
     (Inr \<lparr>body_order_id = Some 7, body_payment_method = Some ''cod''\<rparr>) test_state =
     (Jsonify [(''success'', JBool False), (''error'', JStr ''Order not found'')] 404, test_state)"
proof -
  have h1: "body_order_id \<lparr>body_order_id = Some 7, body_payment_method = Some ''cod''\<rparr> = Some 7"
    by simp
  have h2: "(7::int) \<noteq> 0" by simp
  have o: "orders test_state 7 = Some (test_order 3 CREATED)"
    by (simp add: test_state_def)
  have h3: "\<forall>ord. orders test_state 7 = Some ord \<longrightarrow> user_id ord \<noteq> 4"
    by (simp add: o test_order_def)
  from process_payment_foreign_order [OF h1 h2 h3] o show ?thesis by simp
qed

section \<open>The result page marks an order as paid\<close>

text \<open>
  C9. For every existing order \<open>n\<close>, a request to the result page with \<^verbatim>\<open>status=success\<close>
  and \<^verbatim>\<open>orderCode=n\<close>, whoever sends it (\<open>current_user\<close> is arbitrary) and without any
  signature, makes the order PAID, sets its payment id to the parameter
  \<^verbatim>\<open>transactionId\<close> (the empty text if there is none) and clears the cart of the order's
  owner.
\<close>

theorem payment_result_success_marks_paid:
  assumes "orders s n = Some ord"
    and "map_of args ''status'' = Some ''success''"
    and "map_of args ''orderCode'' = Some (str_int n)"
  shows "orders (snd (payment_result ext args current_user s)) =
           (orders s)(n \<mapsto> ord\<lparr>status := PAID,
                                  payment_id := JStr (args_get args ''transactionId'' [])\<rparr>) \<and>
         carts (snd (payment_result ext args current_user s)) = (carts s)(user_id ord := []) \<and>
         cart_clears (snd (payment_result ext args current_user s)) = user_id ord # cart_clears s"
  using assms
  by (simp add: payment_result_def args_get_def int_of_str_str_int str_int_nonempty clear_cart_def
      Let_def)

theorem payment_result_success_marks_paid_witness:
  "orders test_state 7 = Some (test_order 3 CREATED) \<and>
   orders (snd (payment_result test_ext [(''status'', ''success''), (''orderCode'', ''7'')] None
                  test_state)) 7 =
     Some (test_order 3 CREATED\<lparr>status := PAID, payment_id := JStr []\<rparr>) \<and>
   carts test_state 3 = [''book''] \<and>
   carts (snd (payment_result test_ext [(''status'', ''success''), (''orderCode'', ''7'')] None
                 test_state)) 3 = [] \<and>
   orders (snd (payment_result test_ext
                  [(''status'', ''success''), (''orderCode'', ''7''), (''transactionId'', ''tx-1'')]
                  (Some 99) test_state)) 7 =
     Some (test_order 3 CREATED\<lparr>status := PAID, payment_id := JStr ''tx-1''\<rparr>)"
proof -
  let ?a = "[(''status'', ''success''), (''orderCode'', ''7'')]"
  let ?b = "[(''status'', ''success''), (''orderCode'', ''7''), (''transactionId'', ''tx-1'')]"
  have o: "orders test_state 7 = Some (test_order 3 CREATED)"
    by (simp add: test_state_def)
  have a: "map_of ?a ''status'' = Some ''success''" "map_of ?a ''orderCode'' = Some (str_int 7)"
    by (simp_all add: str_int_7)
  have b: "map_of ?b ''status'' = Some ''success''" "map_of ?b ''orderCode'' = Some (str_int 7)"
    by (simp_all add: str_int_7)
  have u: "user_id (test_order 3 CREATED) = 3" "carts test_state 3 = [''book'']"
    by (simp_all add: test_order_def test_state_def)
  from payment_result_success_marks_paid [OF o a, of test_ext None]
    payment_result_success_marks_paid [OF o b, of test_ext "Some 99"] o u
  show ?thesis by (simp add: args_get_def)
qed

section \<open>The description argument\<close>

text \<open>
  C10. \<^verbatim>\<open>create_payment\<close> does not depend on its argument \<^verbatim>\<open>description\<close>: for any two
  descriptions the request that is sent (payload, signature, headers) is the same and,
  with the same transport, so is the result.
\<close>

theorem create_payment_ignores_description:
  "create_payment_request ext api order_id amt d1 = create_payment_request ext api order_id amt d2 \<and>
   create_payment ext api order_id amt d1 = create_payment ext api order_id amt d2"
  by (simp add: create_payment_def create_payment_try_def create_payment_request_def)

end
